theory Spec2Isabelle
  imports Complex_Main "HOL-Library.Multiset"
begin

section \<open>The Spectrum 2 theme: runtime helpers and theme tables\<close>

text \<open>
  This theory embeds \<^verbatim>\<open>packages/@react-spectrum/s2/style/spectrum-theme.ts\<close>:
  the helper functions \<^verbatim>\<open>pxToRem\<close>, \<^verbatim>\<open>baseColor\<close>, \<^verbatim>\<open>lightDark\<close>,
  \<^verbatim>\<open>generateSpacing\<close>, \<^verbatim>\<open>arbitrary\<close>, \<^verbatim>\<open>fontRelative\<close>, \<^verbatim>\<open>edgeToText\<close>,
  \<^verbatim>\<open>space\<close>, \<^verbatim>\<open>size\<close>, the tables \<^verbatim>\<open>color\<close>, \<^verbatim>\<open>baseSpacing\<close>,
  \<^verbatim>\<open>scaledSpacing\<close>, and the \<^verbatim>\<open>shorthands\<close> and \<^verbatim>\<open>conditions\<close> handed to
  \<^verbatim>\<open>createTheme\<close>.
\<close>

subsection \<open>JavaScript numbers\<close>

text \<open>
  A JavaScript number is an IEEE 754 double: a finite value, one of the two infinities, or
  NaN. A finite value is carried as the rational it denotes, and every operation rounds
  its exact result to the nearest double, ties to the even mantissa, overflowing to an
  infinity. The sign of zero is left out: there is one zero, and it prints as \<^verbatim>\<open>0\<close> as
  both zeros of the language do.
\<close>

datatype number = Fin rat | PosInf | NegInf | NaN

text \<open>The number of binary digits of a positive integer.\<close>

function bit_length :: "int \<Rightarrow> int" where
  "bit_length n = (if n \<le> 0 then 0 else 1 + bit_length (n div 2))"
  by pat_completeness auto
termination
  by (relation "measure nat") auto

declare bit_length.simps [simp del]

text \<open>
  The double nearest to \<open>p / q\<close> (both positive), as mantissa \<open>m\<close> and exponent \<open>qe\<close>
  with value \<open>m * 2 ^ qe\<close>. With \<open>2 ^ e \<le> p / q < 2 ^ (e + 1)\<close>, a normal double has its
  last mantissa bit at \<open>e - 52\<close>; below \<open>2 ^ (-1022)\<close> the exponent stays at \<open>-1074\<close>
  (subnormal doubles). The quotient is rounded to the nearest integer, to the even one
  on a tie. A mantissa that rounds up to \<open>2 ^ 53\<close> is the first of the next binade. The
  result is out of range when \<open>qe\<close> exceeds 971.
\<close>

definition double_repr :: "int \<Rightarrow> int \<Rightarrow> int \<times> int" where
  "double_repr p q =
     (let e0 = bit_length p - bit_length q;
          e = (if q * 2 ^ nat e0 \<le> p * 2 ^ nat (- e0) then e0 else e0 - 1);
          qe = max e (- 1022) - 52;
          num = p * 2 ^ nat (- qe);
          den = q * 2 ^ nat qe;
          m0 = num div den;
          r = num mod den;
          m = (if 2 * r < den then m0
               else if den < 2 * r then m0 + 1
               else if m0 mod 2 = 0 then m0 else m0 + 1)
      in if m = 2 ^ 53 then (2 ^ 52, qe + 1) else (m, qe))"

definition pow2 :: "int \<Rightarrow> rat" where
  "pow2 e = (if 0 \<le> e then of_int (2 ^ nat e) else 1 / of_int (2 ^ nat (- e)))"

text \<open>
  Rounding a rational: its sign apart, the fraction in lowest terms is rounded by
  \<open>double_repr\<close>, and the result is the rational \<open>m * 2 ^ qe\<close> or an infinity.
\<close>

fun double_of_fraction :: "int \<times> int \<Rightarrow> int \<times> int" where
  "double_of_fraction (p, q) = double_repr p q"

fun signed_double :: "bool \<Rightarrow> int \<times> int \<Rightarrow> number" where
  "signed_double negative (m, qe) =
     (if 971 < qe then (if negative then NegInf else PosInf)
      else Fin ((if negative then - 1 else 1) * of_int m * pow2 qe))"

definition round_double :: "rat \<Rightarrow> number" where
  "round_double x =
     (if x = 0 then Fin 0
      else signed_double (x < 0) (double_of_fraction (quotient_of \<bar>x\<bar>)))"

fun num_div :: "number \<Rightarrow> number \<Rightarrow> number" where
  "num_div NaN y = NaN"
| "num_div x NaN = NaN"
| "num_div (Fin a) (Fin b) =
     (if b = 0 then (if a = 0 then NaN else if 0 < a then PosInf else NegInf)
      else round_double (a / b))"
| "num_div (Fin a) y = Fin 0"
| "num_div PosInf (Fin b) = (if b < 0 then NegInf else PosInf)"
| "num_div NegInf (Fin b) = (if b < 0 then PosInf else NegInf)"
| "num_div x y = NaN"

fun num_mul :: "number \<Rightarrow> number \<Rightarrow> number" where
  "num_mul NaN y = NaN"
| "num_mul x NaN = NaN"
| "num_mul (Fin a) (Fin b) = round_double (a * b)"
| "num_mul (Fin a) PosInf = (if a = 0 then NaN else if 0 < a then PosInf else NegInf)"
| "num_mul (Fin a) NegInf = (if a = 0 then NaN else if 0 < a then NegInf else PosInf)"
| "num_mul PosInf (Fin b) = (if b = 0 then NaN else if 0 < b then PosInf else NegInf)"
| "num_mul NegInf (Fin b) = (if b = 0 then NaN else if 0 < b then NegInf else PosInf)"
| "num_mul PosInf PosInf = PosInf"
| "num_mul NegInf NegInf = PosInf"
| "num_mul x y = NegInf"

subsection \<open>Number to string, string to number\<close>

definition digit_char :: "nat \<Rightarrow> char" where
  "digit_char n = ''0123456789'' ! (n mod 10)"

definition is_digit :: "char \<Rightarrow> bool" where
  "is_digit c = (c \<in> set ''0123456789'')"

function int_to_string :: "int \<Rightarrow> string" where
  "int_to_string n =
     (if n < 10 then [digit_char (nat n)]
      else int_to_string (n div 10) @ [digit_char (nat (n mod 10))])"
  by pat_completeness auto
termination
  by (relation "measure nat") auto

declare int_to_string.simps [simp del]

text \<open>The \<open>n\<close> with \<open>10 ^ (n - 1) \<le> p / q < 10 ^ n\<close>, for positive \<open>p\<close> and \<open>q\<close>.\<close>

definition decimal_exponent :: "int \<Rightarrow> int \<Rightarrow> int" where
  "decimal_exponent p q =
     (let d = int (length (int_to_string p)) - int (length (int_to_string q))
      in if q * 10 ^ nat d \<le> p * 10 ^ nat (- d) then d + 1 else d)"

text \<open>
  \<^verbatim>\<open>Number::toString\<close> prints the decimal with the fewest digits \<open>k\<close> that reads back as
  the same double and, among those of \<open>k\<close> digits, the one closest to it (the even one
  on a tie). For \<open>k\<close> digits the only candidates are the two multiples of \<open>10 ^ t\<close>,
  \<open>t = n - k\<close>, around the value. A candidate is given as \<open>(s, t)\<close>, of value
  \<open>s * 10 ^ t\<close>. Seventeen digits always suffice.
\<close>

definition decimal_candidate :: "nat \<Rightarrow> int \<Rightarrow> int \<Rightarrow> int \<Rightarrow> (int \<times> int) option" where
  "decimal_candidate k p q n0 =
     (let t = n0 - int k;
          num = p * 10 ^ nat (- t);
          den = q * 10 ^ nat t;
          lo = num div den;
          r = num mod den;
          hi = lo + 1;
          target = double_repr p q;
          ok_lo = (double_repr (lo * 10 ^ nat t) (10 ^ nat (- t)) = target);
          ok_hi = (double_repr (hi * 10 ^ nat t) (10 ^ nat (- t)) = target);
          pick_hi = (if ok_lo then ok_hi \<and> (den < 2 * r \<or> (2 * r = den \<and> lo mod 2 = 1))
                     else ok_hi)
      in if ok_lo \<or> ok_hi then Some (if pick_hi then (hi, t) else (lo, t)) else None)"

text \<open>
  The search tries \<open>k = 1, 2, \<dots>\<close> digits and stops at the first \<open>k\<close> with a candidate.
\<close>

fun shortest_decimal :: "nat \<Rightarrow> nat \<Rightarrow> int \<Rightarrow> int \<Rightarrow> int \<Rightarrow> int \<times> int"
  and first_candidate ::
    "(int \<times> int) option \<Rightarrow> nat \<Rightarrow> nat \<Rightarrow> int \<Rightarrow> int \<Rightarrow> int \<Rightarrow> int \<times> int" where
  "shortest_decimal 0 k p q n0 =
     (p * 10 ^ nat (int k - n0) div (q * 10 ^ nat (n0 - int k)), n0 - int k)"
| "shortest_decimal (Suc fuel) k p q n0 =
     first_candidate (decimal_candidate k p q n0) fuel k p q n0"
| "first_candidate (Some st) fuel k p q n0 = st"
| "first_candidate None fuel k p q n0 = shortest_decimal fuel (Suc k) p q n0"

text \<open>
  The candidate \<open>10 ^ k * 10 ^ t\<close> above a value has the digits of \<open>1\<close>; trailing zeros
  are no digits of \<open>s\<close>.
\<close>

definition strip_zeros :: "string \<Rightarrow> string" where
  "strip_zeros ds = rev (dropWhile (\<lambda>c. c = CHR ''0'') (rev ds))"

text \<open>
  The digits \<open>ds\<close> of a value \<open>0.ds * 10 ^ n\<close> laid out as the language does: plain
  notation for \<open>-6 < n \<le> 21\<close>, exponent notation otherwise.
\<close>

definition format_decimal :: "string \<Rightarrow> int \<Rightarrow> string" where
  "format_decimal ds n =
     (let k = int (length ds)
      in if k \<le> n \<and> n \<le> 21 then ds @ replicate (nat (n - k)) (CHR ''0'')
         else if 0 < n \<and> n \<le> 21 then take (nat n) ds @ ''.'' @ drop (nat n) ds
         else if - 6 < n \<and> n \<le> 0 then ''0.'' @ replicate (nat (- n)) (CHR ''0'') @ ds
         else (let es = (if n - 1 < 0 then ''-'' else ''+'') @ int_to_string \<bar>n - 1\<bar>
               in if k = 1 then ds @ ''e'' @ es
                  else take 1 ds @ ''.'' @ drop 1 ds @ ''e'' @ es))"

text \<open>
  Printing a finite number: round it, find the shortest decimal \<open>s * 10 ^ t\<close>, whose
  value is \<open>0.ds * 10 ^ n\<close> for the digits \<open>ds\<close> of \<open>s\<close> and \<open>n\<close> their number plus \<open>t\<close>,
  and lay it out, after the sign.
\<close>

fun decimal_string :: "int \<times> int \<Rightarrow> string" where
  "decimal_string (s, t) =
     format_decimal (strip_zeros (int_to_string s)) (int (length (int_to_string s)) + t)"

fun fraction_to_string :: "int \<times> int \<Rightarrow> string" where
  "fraction_to_string (p, q) =
     decimal_string (shortest_decimal 17 1 p q (decimal_exponent p q))"

definition double_to_string :: "rat \<Rightarrow> string" where
  "double_to_string y = fraction_to_string (quotient_of y)"

fun signed_string :: "bool \<Rightarrow> number \<Rightarrow> string" where
  "signed_string negative (Fin y) =
     (if y = 0 then ''0'' else (if negative then ''-'' else []) @ double_to_string y)"
| "signed_string negative PosInf = (if negative then ''-'' else []) @ ''Infinity''"
| "signed_string negative NegInf = ''-Infinity''"
| "signed_string negative NaN = ''NaN''"

definition rat_to_string :: "rat \<Rightarrow> string" where
  "rat_to_string x = signed_string (x < 0) (round_double \<bar>x\<bar>)"

fun number_to_string :: "number \<Rightarrow> string" where
  "number_to_string NaN = ''NaN''"
| "number_to_string PosInf = ''Infinity''"
| "number_to_string NegInf = ''-Infinity''"
| "number_to_string (Fin x) = rat_to_string x"

definition is_space :: "char \<Rightarrow> bool" where
  "is_space c = (of_char c \<in> {9, 10, 11, 12, 13, 32 :: nat})"

definition digits_val :: "string \<Rightarrow> nat" where
  "digits_val ds = foldl (\<lambda>acc c. 10 * acc + (of_char c - 48)) 0 ds"

definition decimal_value :: "string \<Rightarrow> int" where
  "decimal_value ds = foldl (\<lambda>acc c. 10 * acc + (of_char c - 48)) 0 ds"

definition is_prefix :: "string \<Rightarrow> string \<Rightarrow> bool" where
  "is_prefix p s = (take (length p) s = p)"

text \<open>
  The exponent part of a decimal literal: \<^verbatim>\<open>e\<close> or \<^verbatim>\<open>E\<close>, an optional sign and at
  least one digit; anything else is not part of the number and counts as exponent 0.
\<close>

definition parse_exponent :: "string \<Rightarrow> int" where
  "parse_exponent s =
     (case s of
        [] \<Rightarrow> 0
      | c # t \<Rightarrow>
          if c = CHR ''e'' \<or> c = CHR ''E'' then
            (let neg = is_prefix ''-'' t;
                 u = (if is_prefix ''-'' t \<or> is_prefix ''+'' t then tl t else t);
                 ds = takeWhile is_digit u
             in if ds = [] then 0
                else if neg then - decimal_value ds else decimal_value ds)
          else 0)"

definition pow10 :: "int \<Rightarrow> rat" where
  "pow10 e = (if 0 \<le> e then 10 ^ nat e else 1 / 10 ^ nat (- e))"

text \<open>
  \<^verbatim>\<open>parseFloat\<close>: skip leading white space (here the ASCII white space characters),
  read an optional sign, then \<^verbatim>\<open>Infinity\<close> or the longest prefix that is a decimal
  literal, rounded to a double; NaN when there is none.
\<close>

definition parseFloat :: "string \<Rightarrow> number" where
  "parseFloat str =
     (let s0 = dropWhile is_space str;
          neg = is_prefix ''-'' s0;
          s = (if is_prefix ''-'' s0 \<or> is_prefix ''+'' s0 then tl s0 else s0)
      in if is_prefix ''Infinity'' s then (if neg then NegInf else PosInf)
         else
           let ip = takeWhile is_digit s;
               r1 = dropWhile is_digit s;
               fp = (if is_prefix ''.'' r1 then takeWhile is_digit (tl r1) else []);
               r2 = (if is_prefix ''.'' r1 then dropWhile is_digit (tl r1) else r1)
           in if ip = [] \<and> fp = [] then NaN
              else
                let m = of_int (decimal_value (ip @ fp)) / 10 ^ length fp
                          * pow10 (parse_exponent r2)
                in round_double (if neg then - m else m))"

subsection \<open>JavaScript objects with string keys\<close>

text \<open>
  An object is the list of its own properties in the order \<^verbatim>\<open>Object.keys\<close> and
  \<^verbatim>\<open>Object.entries\<close> list them. Writing a property keeps the position of a key that
  is already there and appends a new key. (The language lists keys that are array indices
  first, in ascending order; the only such keys here are those of \<^verbatim>\<open>baseSpacing\<close>,
  which are written in ascending order.)
\<close>

type_synonym 'v object = "(string \<times> 'v) list"

fun obj_set :: "'v object \<Rightarrow> string \<Rightarrow> 'v \<Rightarrow> 'v object" where
  "obj_set [] k v = [(k, v)]"
| "obj_set ((k', v') # rest) k v =
     (if k' = k then (k, v) # rest else (k', v') # obj_set rest k v)"

definition obj_get :: "'v object \<Rightarrow> string \<Rightarrow> 'v option" where
  "obj_get obj k = map_of obj k"

definition object_keys :: "'v object \<Rightarrow> string list" where
  "object_keys obj = map fst obj"

text \<open>Object spread \<^verbatim>\<open>{...obj, ...src}\<close>: the properties of \<open>src\<close> written in order.\<close>

definition obj_spread :: "'v object \<Rightarrow> 'v object \<Rightarrow> 'v object" where
  "obj_spread obj src = foldl (\<lambda>acc (k, v). obj_set acc k v) obj src"

text \<open>A value interpolated into a template string; a missing property reads \<^verbatim>\<open>undefined\<close>.\<close>

definition template_string :: "string option \<Rightarrow> string" where
  "template_string v = (case v of None \<Rightarrow> ''undefined'' | Some s \<Rightarrow> s)"

subsection \<open>Unit conversion and the arbitrary-value marker\<close>

datatype string_or_number = S string | N number

text \<open>
  \<^verbatim>\<open>
  function pxToRem(px: string | number) {
    if (typeof px === 'string') {
      px = parseFloat(px);
    }
    return px / 16 + 'rem';
  }\<close>
\<close>

definition pxToRem :: "string_or_number \<Rightarrow> string" where
  "pxToRem px =
     (let px' = (case px of S s \<Rightarrow> parseFloat s | N n \<Rightarrow> n)
      in number_to_string (num_div px' (Fin 16)) @ ''rem'')"

text \<open>
  The receiver \<^verbatim>\<open>this: MacroContext | void\<close> of a helper. A macro context offers
  \<^verbatim>\<open>addAsset\<close>; it is modelled by the assets (type and content) it has been given.
\<close>

record MacroContext =
  assets :: "(string \<times> string) list"

text \<open>
  \<^verbatim>\<open>
  function arbitrary(ctx: MacroContext | void, value: string): `[${string}]` {
    return ctx ? `[${value}]` : value as any;
  }\<close>
\<close>

definition arbitrary :: "MacroContext option \<Rightarrow> string \<Rightarrow> string" where
  "arbitrary ctx v = (case ctx of Some c \<Rightarrow> ''['' @ v @ '']'' | None \<Rightarrow> v)"

text \<open>
  \<^verbatim>\<open>
  export function space(this: MacroContext | void, px: number) {
    return arbitrary(this, pxToRem(px));
  }\<close>
\<close>

definition space :: "MacroContext option \<Rightarrow> number \<Rightarrow> string" where
  "space this px = arbitrary this (pxToRem (N px))"

text \<open>
  \<^verbatim>\<open>
  export function fontRelative(this: MacroContext | void, base: number, baseFontSize = 14) {
    return arbitrary(this, (base / baseFontSize) + 'em');
  }\<close>
  An omitted \<^verbatim>\<open>baseFontSize\<close> is \<open>None\<close>.
\<close>

definition fontRelative :: "MacroContext option \<Rightarrow> number \<Rightarrow> number option \<Rightarrow> string" where
  "fontRelative this base baseFontSize =
     (let baseFontSize' = (case baseFontSize of None \<Rightarrow> Fin 14 | Some b \<Rightarrow> b)
      in arbitrary this (number_to_string (num_div base baseFontSize') @ ''em''))"

text \<open>
  \<^verbatim>\<open>
  export function size(this: MacroContext | void, px: number) {
    return {default: arbitrary(this, pxToRem(px)), touch: arbitrary(this, pxToRem(px * 1.25))};
  }\<close>
  The function \<^verbatim>\<open>size\<close> is named \<open>size_helper\<close> here, \<open>size\<close> being a constant of HOL.
  The literal \<^verbatim>\<open>1.25\<close> is the rational \<open>5 / 4\<close>.
\<close>

definition size_helper :: "MacroContext option \<Rightarrow> number \<Rightarrow> string object" where
  "size_helper this px =
     [(''default'', arbitrary this (pxToRem (N px))),
      (''touch'', arbitrary this (pxToRem (N (num_mul px (Fin (5 / 4))))))]"

subsection \<open>The color palette\<close>

text \<open>
  The palette \<^verbatim>\<open>color\<close> (lines 28 to 73) spreads the results of the macros
  \<^verbatim>\<open>colorScale\<close> and \<^verbatim>\<open>simpleColorScale\<close> of \<^verbatim>\<open>./tokens\<close> between its literal
  entries. The two macros are parameters of the model.
\<close>

definition color :: "(string \<Rightarrow> string object) \<Rightarrow> (string \<Rightarrow> string object) \<Rightarrow> string object" where
  "color colorScale simpleColorScale =
     foldl obj_spread []
       ([[(''transparent'', ''transparent''), (''black'', ''black''), (''white'', ''white'')]]
        @ map colorScale
            [''gray'', ''blue'', ''red'', ''orange'', ''yellow'', ''chartreuse'', ''celery'',
             ''green'', ''seafoam'', ''cyan'', ''indigo'', ''purple'', ''fuchsia'', ''magenta'',
             ''pink'', ''turquoise'', ''brown'', ''silver'', ''cinnamon'']
        @ map colorScale
            [''accent-color'', ''informative-color'', ''negative-color'', ''notice-color'',
             ''positive-color'']
        @ map simpleColorScale [''transparent-white'', ''transparent-black'']
        @ [[(''Background'', ''Background''), (''ButtonBorder'', ''ButtonBorder''),
            (''ButtonFace'', ''ButtonFace''), (''ButtonText'', ''ButtonText''),
            (''Field'', ''Field''), (''Highlight'', ''Highlight''),
            (''HighlightText'', ''HighlightText''), (''GrayText'', ''GrayText''),
            (''Mark'', ''Mark''), (''LinkText'', ''LinkText'')]])"

datatype error = Error string | TypeError string

text \<open>\<^verbatim>\<open>Array.prototype.indexOf\<close>: the first position of the element, or \<open>-1\<close>.\<close>

fun indexOf :: "'a list \<Rightarrow> 'a \<Rightarrow> int" where
  "indexOf [] x = - 1"
| "indexOf (y # ys) x =
     (if y = x then 0 else (let i = indexOf ys x in if i = - 1 then - 1 else i + 1))"

text \<open>Reading an array element; out of range the language gives \<^verbatim>\<open>undefined\<close>.\<close>

definition array_get :: "'a list \<Rightarrow> int \<Rightarrow> 'a option" where
  "array_get xs i = (if 0 \<le> i \<and> i < int (length xs) then Some (xs ! nat i) else None)"

text \<open>
  \<^verbatim>\<open>
  export function baseColor(base: keyof typeof color) {
    let keys = Object.keys(color) as (keyof typeof color)[];
    let index = keys.indexOf(base);
    if (index === -1) {
      throw new Error('Invalid base color ' + base);
    }

    return {
      default: base,
      isHovered: keys[index + 1],
      isFocusVisible: keys[index + 1],
      isPressed: keys[index + 1]
    };
  }\<close>
  The palette is the first argument. A field that holds \<^verbatim>\<open>undefined\<close> is \<open>None\<close>.
\<close>

definition baseColor :: "string object \<Rightarrow> string \<Rightarrow> error + string option object" where
  "baseColor palette base =
     (let keys = object_keys palette;
          index = indexOf keys base
      in if index = - 1 then Inl (Error (''Invalid base color '' @ base))
         else Inr [(''default'', Some base),
                   (''isHovered'', array_get keys (index + 1)),
                   (''isFocusVisible'', array_get keys (index + 1)),
                   (''isPressed'', array_get keys (index + 1))])"

text \<open>
  \<^verbatim>\<open>
  export function lightDark(light: keyof typeof color, dark: keyof typeof color): `[${string}]` {
    return `[light-dark(${color[light]}, ${color[dark]})]`;
  }\<close>
\<close>

definition lightDark :: "string object \<Rightarrow> string \<Rightarrow> string \<Rightarrow> string" where
  "lightDark palette light dark =
     ''[light-dark('' @ template_string (obj_get palette light) @ '', ''
       @ template_string (obj_get palette dark) @ '')]''"

subsection \<open>Spacing tables\<close>

text \<open>
  \<^verbatim>\<open>
  function generateSpacing<K extends number[]>(px: K): {[P in K[number]]: string} {
    let res: any = {};
    for (let p of px) {
      res[p] = pxToRem(p);
    }
    return res;
  }\<close>
  The property key of a number is its string.
\<close>

definition generateSpacing :: "number list \<Rightarrow> string object" where
  "generateSpacing px = foldl (\<lambda>res p. obj_set res (number_to_string p) (pxToRem (N p))) [] px"

text \<open>
  The array literal handed to \<^verbatim>\<open>generateSpacing\<close> for \<^verbatim>\<open>baseSpacing\<close> (lines 102 to
  136).
\<close>

definition spacing_px :: "rat list" where
  "spacing_px =
     [0, 4, 8, 12, 16, 20, 24, 28, 32, 36, 40, 44, 48, 56, 64, 80, 96, 112, 128, 144, 160,
      176, 192, 208, 224, 240, 256, 288, 320, 384]"

definition baseSpacing :: "string object" where
  "baseSpacing = generateSpacing (map Fin spacing_px)"

definition negativeSpacing :: "string object" where
  "negativeSpacing = generateSpacing (map Fin
     [- 4, - 8, - 12, - 16, - 20, - 24, - 28, - 32, - 36, - 40, - 44, - 48, - 56, - 64, - 80,
      - 96, - 112, - 128, - 144, - 160, - 176, - 192, - 208, - 224, - 240, - 256, - 288,
      - 320, - 384])"

text \<open>
  \<^verbatim>\<open>
  export function edgeToText(this: MacroContext | void, height: keyof typeof baseSpacing) {
    return `calc(${baseSpacing[height]} * 3 / 8)`;
  }\<close>
  The table read is the first argument.
\<close>

definition edgeToText :: "string object \<Rightarrow> MacroContext option \<Rightarrow> number \<Rightarrow> string" where
  "edgeToText spacing this height =
     ''calc('' @ template_string (obj_get spacing (number_to_string height)) @ '' * 3 / 8)''"

text \<open>
  \<^verbatim>\<open>v.match(/[^0-9.]+/)\<close>: the first longest run of characters that are neither a
  digit nor a dot, or \<^verbatim>\<open>null\<close> when there is none.
\<close>

definition numeric_char :: "char \<Rightarrow> bool" where
  "numeric_char c = (is_digit c \<or> c = CHR ''.'')"

definition match_unit :: "string \<Rightarrow> string option" where
  "match_unit v =
     (let r = dropWhile numeric_char v
      in if r = [] then None else Some (takeWhile (\<lambda>c. \<not> numeric_char c) r))"

text \<open>
  \<^verbatim>\<open>
  const scaledSpacing: {[key in keyof typeof baseSpacing]: {default: string, touch: string}} =
    Object.fromEntries(Object.entries(baseSpacing).map(([k, v]) =>
      [k, {default: v, touch: parseFloat(v) * 1.25 + v.match(/[^0-9.]+/)![0]}])
    ) as any;\<close>
  Indexing the \<^verbatim>\<open>null\<close> of a failed match throws a TypeError.
\<close>

definition scaled_entry :: "string \<times> string \<Rightarrow> error + (string \<times> string object)" where
  "scaled_entry kv =
     (case kv of (k, v) \<Rightarrow>
        (case match_unit v of
           None \<Rightarrow> Inl (TypeError ''Cannot read properties of null'')
         | Some u \<Rightarrow>
             Inr (k, [(''default'', v),
                      (''touch'', number_to_string (num_mul (parseFloat v) (Fin (5 / 4))) @ u)])))"

fun map_entries :: "('a \<Rightarrow> error + 'b) \<Rightarrow> 'a list \<Rightarrow> error + 'b list" where
  "map_entries f [] = Inr []"
| "map_entries f (x # xs) =
     (case f x of
        Inl e \<Rightarrow> Inl e
      | Inr y \<Rightarrow> (case map_entries f xs of Inl e \<Rightarrow> Inl e | Inr ys \<Rightarrow> Inr (y # ys)))"

definition scaledSpacing :: "error + (string object) object" where
  "scaledSpacing =
     (case map_entries scaled_entry baseSpacing of
        Inl e \<Rightarrow> Inl e
      | Inr entries \<Rightarrow> Inr (obj_spread [] entries))"

text \<open>A string wrapped in square brackets: the form of an arbitrary-value marker.\<close>

definition bracketed :: "string \<Rightarrow> bool" where
  "bracketed s = (2 \<le> length s \<and> hd s = CHR ''['' \<and> last s = CHR '']'')"

subsection \<open>The theme handed to \<^verbatim>\<open>createTheme\<close>\<close>

text \<open>
  A style value is a literal or a record from condition names (and \<^verbatim>\<open>default\<close>) to
  style values.
\<close>

datatype literal = LStr string | LNum number | LBool bool

datatype style_value = Literal literal | Conditional "(string \<times> style_value) list"

text \<open>
  The transform of the property at line 736:
  \<^verbatim>\<open>outlineOffset: createArbitraryProperty<number>((v, property) => ({[property]: `${v}px`}))\<close>
\<close>

definition outlineOffset_transform :: "number \<Rightarrow> string \<Rightarrow> string object" where
  "outlineOffset_transform v property = [(property, number_to_string v @ ''px'')]"

text \<open>
  A shorthand is a list of base properties or a function from the value to a record of
  base properties (lines 840 to 892).
  \<^verbatim>\<open>
    transition: (value: keyof typeof transitionProperty) => ({
      transition: value,
      transitionDuration: 150,
      transitionTimingFunction: 'default'
    }),
    animation: (value: string) => ({
      animation: value,
      animationDuration: 150,
      animationTimingFunction: 'default'
    }),
    truncate: (_value: true) => ({
      overflowX: 'hidden',
      overflowY: 'hidden',
      textOverflow: 'ellipsis',
      whiteSpace: 'nowrap'
    })\<close>
\<close>

datatype shorthand = Properties "string list" | Expansion "style_value \<Rightarrow> style_value object"

definition transition_shorthand :: "style_value \<Rightarrow> style_value object" where
  "transition_shorthand v =
     [(''transition'', v),
      (''transitionDuration'', Literal (LNum (Fin 150))),
      (''transitionTimingFunction'', Literal (LStr ''default''))]"

definition animation_shorthand :: "style_value \<Rightarrow> style_value object" where
  "animation_shorthand v =
     [(''animation'', v),
      (''animationDuration'', Literal (LNum (Fin 150))),
      (''animationTimingFunction'', Literal (LStr ''default''))]"

definition truncate_shorthand :: "style_value \<Rightarrow> style_value object" where
  "truncate_shorthand v =
     [(''overflowX'', Literal (LStr ''hidden'')),
      (''overflowY'', Literal (LStr ''hidden'')),
      (''textOverflow'', Literal (LStr ''ellipsis'')),
      (''whiteSpace'', Literal (LStr ''nowrap''))]"

definition shorthands :: "shorthand object" where
  "shorthands =
     [(''padding'', Properties [''paddingTop'', ''paddingBottom'', ''paddingStart'', ''paddingEnd'']),
      (''paddingX'', Properties [''paddingStart'', ''paddingEnd'']),
      (''paddingY'', Properties [''paddingTop'', ''paddingBottom'']),
      (''margin'', Properties [''marginTop'', ''marginBottom'', ''marginStart'', ''marginEnd'']),
      (''marginX'', Properties [''marginStart'', ''marginEnd'']),
      (''marginY'', Properties [''marginTop'', ''marginBottom'']),
      (''scrollPadding'', Properties [''scrollPaddingTop'', ''scrollPaddingBottom'',
         ''scrollPaddingStart'', ''scrollPaddingEnd'']),
      (''scrollPaddingX'', Properties [''scrollPaddingStart'', ''scrollPaddingEnd'']),
      (''scrollPaddingY'', Properties [''scrollPaddingTop'', ''scrollPaddingBottom'']),
      (''scrollMargin'', Properties [''scrollMarginTop'', ''scrollMarginBottom'',
         ''scrollMarginStart'', ''scrollMarginEnd'']),
      (''scrollMarginX'', Properties [''scrollMarginStart'', ''scrollMarginEnd'']),
      (''scrollMarginY'', Properties [''scrollMarginTop'', ''scrollMarginBottom'']),
      (''borderWidth'', Properties [''borderTopWidth'', ''borderBottomWidth'',
         ''borderStartWidth'', ''borderEndWidth'']),
      (''borderXWidth'', Properties [''borderStartWidth'', ''borderEndWidth'']),
      (''borderYWidth'', Properties [''borderTopWidth'', ''borderBottomWidth'']),
      (''borderRadius'', Properties [''borderTopStartRadius'', ''borderTopEndRadius'',
         ''borderBottomStartRadius'', ''borderBottomEndRadius'']),
      (''borderTopRadius'', Properties [''borderTopStartRadius'', ''borderTopEndRadius'']),
      (''borderBottomRadius'', Properties [''borderBottomStartRadius'', ''borderBottomEndRadius'']),
      (''borderStartRadius'', Properties [''borderTopStartRadius'', ''borderBottomStartRadius'']),
      (''borderEndRadius'', Properties [''borderTopEndRadius'', ''borderBottomEndRadius'']),
      (''translate'', Properties [''translateX'', ''translateY'']),
      (''inset'', Properties [''top'', ''bottom'', ''insetStart'', ''insetEnd'']),
      (''insetX'', Properties [''insetStart'', ''insetEnd'']),
      (''insetY'', Properties [''top'', ''bottom'']),
      (''placeItems'', Properties [''alignItems'', ''justifyItems'']),
      (''placeContent'', Properties [''alignContent'', ''justifyContent'']),
      (''placeSelf'', Properties [''alignSelf'', ''justifySelf'']),
      (''gap'', Properties [''rowGap'', ''columnGap'']),
      (''size'', Properties [''width'', ''height'']),
      (''minSize'', Properties [''minWidth'', ''minHeight'']),
      (''maxSize'', Properties [''maxWidth'', ''maxHeight'']),
      (''overflow'', Properties [''overflowX'', ''overflowY'']),
      (''overscrollBehavior'', Properties [''overscrollBehaviorX'', ''overscrollBehaviorY'']),
      (''gridArea'', Properties [''gridColumnStart'', ''gridColumnEnd'', ''gridRowStart'',
         ''gridRowEnd'']),
      (''transition'', Expansion transition_shorthand),
      (''animation'', Expansion animation_shorthand),
      (''truncate'', Expansion truncate_shorthand)]"

text \<open>The conditions (lines 893 to 910), in declaration order.\<close>

definition conditions :: "string object" where
  "conditions =
     [(''forcedColors'', ''@media (forced-colors: active)''),
      (''touch'', ''@media not ((hover: hover) and (pointer: fine))''),
      (''sm'', ''@media (min-width: 640px)''),
      (''md'', ''@media (min-width: 768px)''),
      (''lg'', ''@media (min-width: 1024px)''),
      (''xl'', ''@media (min-width: 1280px)''),
      (''2xl'', ''@media (min-width: 1536px)'')]"

text \<open>
  The threshold in pixels of a condition of the form \<^verbatim>\<open>@media (min-width: Npx)\<close>, and
  the breakpoints among a list of conditions, in their order.
\<close>

definition min_width :: "string \<Rightarrow> nat option" where
  "min_width media =
     (if is_prefix ''@media (min-width: '' media then
        (let r = drop (length ''@media (min-width: '') media;
             ds = takeWhile is_digit r
         in if ds \<noteq> [] \<and> dropWhile is_digit r = ''px)'' then Some (digits_val ds) else None)
      else None)"

definition breakpoints :: "string object \<Rightarrow> (string \<times> nat) list" where
  "breakpoints conds =
     List.map_filter (\<lambda>(name, media). map_option (\<lambda>w. (name, w)) (min_width media)) conds"

section \<open>The compiler behind \<^verbatim>\<open>createTheme\<close>\<close>

text \<open>
  \<^verbatim>\<open>createTheme\<close> is imported from \<^verbatim>\<open>./style-macro\<close>, whose source is not at hand.
  What the properties below need of it is taken from the specification of the system.
\<close>

text \<open>
  Modelled from the spec: the Shorthand Expander of \<^verbatim>\<open>createTheme\<close> (section 4.3).
  "For list-form shorthands, every listed base property receives the identical input
  value unchanged. For function-form shorthands, the function receives the single input
  value and must return a complete mapping including any implicit defaults; the expander
  must not merge the function's outputs with anything else."
\<close>

fun expand :: "shorthand \<Rightarrow> style_value \<Rightarrow> style_value object" where
  "expand (Properties ps) v = map (\<lambda>p. (p, v)) ps"
| "expand (Expansion f) v = f v"

text \<open>
  Modelled from the spec: the resolution of one style call (section 4.3). The resolution
  order is "shorthand expansion happens first, explicit base-property values that appear
  later in the same call override it", that is "last-write-wins per base property,
  matching how the style object's own key order is treated everywhere else in the
  schema". The keys of the style object are processed in order; a shorthand key writes
  the declarations of its expansion, any other key writes its own, each over what earlier
  keys wrote.
\<close>

definition write_declarations ::
    "(string \<rightharpoonup> style_value) \<Rightarrow> style_value object \<Rightarrow> (string \<rightharpoonup> style_value)" where
  "write_declarations decls kvs = foldl (\<lambda>m (p, v). m(p \<mapsto> v)) decls kvs"

definition expand_style ::
    "shorthand object \<Rightarrow> style_value object \<Rightarrow> (string \<rightharpoonup> style_value)" where
  "expand_style shs style =
     foldl (\<lambda>decls (k, v).
              case obj_get shs k of
                Some sh \<Rightarrow> write_declarations decls (expand sh v)
              | None \<Rightarrow> decls(k \<mapsto> v))
       Map.empty style"

text \<open>
  Modelled from the spec: a compiled rule of the Rule Cache (section 3), here gated by at
  most one condition; the specification gives no precedence to a conjunction of
  conditions.
\<close>

record compiled_rule =
  rule_property :: string
  rule_value :: string
  rule_condition :: "string option"

text \<open>
  Modelled from the spec: the precedence rank of a condition (section 3): "a precedence
  rank used to order emitted rules so that later-declared, higher-specificity conditions
  are not silently overridden by earlier ones at equal selector specificity". The rank is
  the position in declaration order; a rule without a condition ranks first.
\<close>

definition precedence :: "string object \<Rightarrow> string option \<Rightarrow> int" where
  "precedence conds c =
     (case c of None \<Rightarrow> 0 | Some name \<Rightarrow> indexOf (object_keys conds) name + 1)"

text \<open>
  Modelled from the spec: \<^verbatim>\<open>flush()\<close> (section 4.5) "concatenates all cached rules in
  ascending precedence-then-insertion order". The cache is the list of its rules in
  insertion order; the sort is stable.
\<close>

definition flush :: "string object \<Rightarrow> compiled_rule list \<Rightarrow> compiled_rule list" where
  "flush conds cache = sort_key (\<lambda>r. precedence conds (rule_condition r)) cache"

section \<open>Properties\<close>

subsection \<open>Characters of a printed number\<close>

lemma is_digit_digit_char: "is_digit (digit_char n)"
  unfolding digit_char_def is_digit_def by (rule nth_mem) simp

lemma int_to_string_chars: "c \<in> set (int_to_string n) \<Longrightarrow> is_digit c"
proof (induction n rule: int_to_string.induct)
  case (1 n)
  from "1.prems" have "c \<in> set (if n < 10 then [digit_char (nat n)]
      else int_to_string (n div 10) @ [digit_char (nat (n mod 10))])"
    by (subst (asm) int_to_string.simps)
  with "1.IH" show ?case by (auto simp: is_digit_digit_char split: if_splits)
qed

lemma strip_zeros_chars: "c \<in> set (strip_zeros ds) \<Longrightarrow> c \<in> set ds"
  unfolding strip_zeros_def by (auto dest: set_dropWhileD)

lemma is_digit_zero: "is_digit (CHR ''0'')"
  by (simp add: is_digit_def)

lemma format_decimal_chars:
  assumes "c \<in> set (format_decimal ds n)" and "\<And>d. d \<in> set ds \<Longrightarrow> is_digit d"
  shows "is_digit c \<or> c = CHR ''.'' \<or> c = CHR ''-'' \<or> c = CHR ''+'' \<or> c = CHR ''e''"
proof -
  from assms(1) have "c \<in> set ds \<or> c = CHR ''0'' \<or> c = CHR ''.'' \<or> c = CHR ''-''
      \<or> c = CHR ''+'' \<or> c = CHR ''e'' \<or> c \<in> set (int_to_string \<bar>n - 1\<bar>)"
    unfolding format_decimal_def Let_def
    by (auto split: if_splits dest: in_set_takeD in_set_dropD)
  with assms(2) int_to_string_chars is_digit_zero show ?thesis by blast
qed

lemma double_to_string_chars:
  assumes "c \<in> set (double_to_string y)"
  shows "is_digit c \<or> c = CHR ''.'' \<or> c = CHR ''-'' \<or> c = CHR ''+'' \<or> c = CHR ''e''"
proof -
  obtain p q where pq: "quotient_of y = (p, q)" by (cases "quotient_of y")
  obtain s t where st: "shortest_decimal 17 1 p q (decimal_exponent p q) = (s, t)"
    by (cases "shortest_decimal 17 1 p q (decimal_exponent p q)")
  from assms have "c \<in> set (format_decimal (strip_zeros (int_to_string s))
      (int (length (int_to_string s)) + t))"
    unfolding double_to_string_def pq fraction_to_string.simps st decimal_string.simps .
  then show ?thesis
    by (rule format_decimal_chars) (auto dest: strip_zeros_chars int_to_string_chars)
qed

lemma number_to_string_no_bracket:
  "CHR ''['' \<notin> set (number_to_string x) \<and> CHR '']'' \<notin> set (number_to_string x)"
proof (cases x)
  case (Fin r)
  have d: "\<not> is_digit CHR ''[''" "\<not> is_digit CHR '']''" by (simp_all add: is_digit_def)
  have "c \<noteq> CHR ''['' \<and> c \<noteq> CHR '']''" if "c \<in> set (rat_to_string r)" for c
  proof (cases "round_double \<bar>r\<bar>")
    case (Fin y)
    with that have "c = CHR ''0'' \<or> c = CHR ''-'' \<or> c \<in> set (double_to_string y)"
      unfolding rat_to_string_def by (auto split: if_splits)
    with double_to_string_chars [of c y] d show ?thesis by auto
  next
    case PosInf
    with that show ?thesis unfolding rat_to_string_def by (auto split: if_splits)
  next
    case NegInf
    with that show ?thesis unfolding rat_to_string_def by auto
  next
    case NaN
    with that show ?thesis unfolding rat_to_string_def by auto
  qed
  then show ?thesis unfolding Fin by auto
qed simp_all

text \<open>
  The number model on values of the theme: \<^verbatim>\<open>fontRelative(10)\<close>, the spacing
  \<^verbatim>\<open>text-to-control\<close>, divides by the default font size 14 and prints the rounded
  quotient with the sixteen digits that determine it; \<^verbatim>\<open>fontRelative(8, 17)\<close> of
  \<^verbatim>\<open>text-to-visual\<close> needs seventeen.
\<close>

lemma fontRelative_10: "fontRelative None (Fin 10) None = ''0.7142857142857143em''"
  by code_simp

lemma fontRelative_8_17:
  "fontRelative None (Fin 8) (Some (Fin 17)) = ''0.47058823529411764em''"
  by code_simp

lemma pxToRem_string: "pxToRem (S ''10px'') = ''0.625rem''"
  by code_simp

subsection \<open>\<^verbatim>\<open>space\<close>\<close>

text \<open>
  C6. For every number \<open>px\<close>, \<^verbatim>\<open>space(px)\<close> invoked with a macro context as receiver
  returns the marker string \<^verbatim>\<open>[\<close> (px/16) \<^verbatim>\<open>rem]\<close>; invoked with no receiver it
  returns the plain string (px/16) \<^verbatim>\<open>rem\<close>, which contains no bracket.
\<close>

theorem space_marker_in_context_plain_otherwise:
  "space (Some ctx) px = ''['' @ number_to_string (num_div px (Fin 16)) @ ''rem]''
   \<and> space None px = number_to_string (num_div px (Fin 16)) @ ''rem''
   \<and> CHR ''['' \<notin> set (space None px) \<and> CHR '']'' \<notin> set (space None px)"
  using number_to_string_no_bracket [of "num_div px (Fin 16)"]
  by (simp add: space_def arbitrary_def pxToRem_def)

subsection \<open>Objects and arrays\<close>

lemma obj_set_keys:
  "object_keys (obj_set obj k v) = (if k \<in> set (object_keys obj) then object_keys obj else object_keys obj @ [k])"
  by (induction obj) (force simp: object_keys_def)+

lemma obj_set_distinct: "distinct (object_keys obj) \<Longrightarrow> distinct (object_keys (obj_set obj k v))"
  by (simp add: obj_set_keys)

lemma obj_spread_distinct: "distinct (object_keys obj) \<Longrightarrow> distinct (object_keys (obj_spread obj src))"
  unfolding obj_spread_def
  by (induction src arbitrary: obj) (auto simp: obj_set_distinct split: prod.splits)

lemma foldl_obj_spread_distinct:
  "distinct (object_keys obj) \<Longrightarrow> distinct (object_keys (foldl obj_spread obj srcs))"
  by (induction srcs arbitrary: obj) (simp_all add: obj_spread_distinct)

lemma color_keys_distinct: "distinct (object_keys (color colorScale simpleColorScale))"
  unfolding color_def by (rule foldl_obj_spread_distinct) (simp add: object_keys_def)

lemma indexOf_ge: "- 1 \<le> indexOf xs x"
  by (induction xs) (auto simp: Let_def)

lemma indexOf_absent: "indexOf xs x = - 1 \<longleftrightarrow> x \<notin> set xs"
proof (induction xs)
  case Nil
  show ?case by simp
next
  case (Cons y ys)
  with indexOf_ge [of ys x] show ?case by (auto simp: Let_def)
qed

lemma indexOf_append: "x \<notin> set pre \<Longrightarrow> indexOf (pre @ x # rest) x = int (length pre)"
  by (induction pre) (auto simp: Let_def)

lemma indexOf_nth:
  "x \<in> set xs \<Longrightarrow> 0 \<le> indexOf xs x \<and> nat (indexOf xs x) < length xs \<and> xs ! nat (indexOf xs x) = x"
proof (induction xs)
  case Nil then show ?case by simp
next
  case (Cons y ys)
  show ?case
  proof (cases "y = x")
    case True then show ?thesis by simp
  next
    case False
    with Cons.prems have "x \<in> set ys" by simp
    from Cons.IH [OF this] False show ?thesis
      by (auto simp: Let_def nat_add_distrib)
  qed
qed

lemma array_get_append1: "array_get (pre @ x # y # rest) (int (length pre) + 1) = Some y"
  by (simp add: array_get_def nth_append nat_add_distrib)

lemma baseColor_next:
  assumes "object_keys palette = pre @ [base, nxt] @ post" and "base \<notin> set pre"
  shows "baseColor palette base =
     Inr [(''default'', Some base), (''isHovered'', Some nxt),
          (''isFocusVisible'', Some nxt), (''isPressed'', Some nxt)]"
  using assms by (simp add: baseColor_def Let_def indexOf_append array_get_append1)

lemma baseColor_last:
  assumes "object_keys palette = pre @ [base]" and "base \<notin> set pre"
  shows "baseColor palette base =
     Inr [(''default'', Some base), (''isHovered'', None),
          (''isFocusVisible'', None), (''isPressed'', None)]"
  using assms indexOf_append [of base pre "[]"]
  by (simp add: baseColor_def Let_def array_get_def)

lemma baseColor_hover:
  assumes "base \<in> set (object_keys palette)"
  shows "baseColor palette base =
     Inr [(''default'', Some base),
          (''isHovered'', array_get (object_keys palette) (indexOf (object_keys palette) base + 1)),
          (''isFocusVisible'', array_get (object_keys palette) (indexOf (object_keys palette) base + 1)),
          (''isPressed'', array_get (object_keys palette) (indexOf (object_keys palette) base + 1))]"
  using assms indexOf_absent [of "object_keys palette" base] by (simp add: baseColor_def Let_def)

lemma next_key_split:
  assumes "x \<in> set xs" and "array_get xs (indexOf xs x + 1) = Some y"
  shows "\<exists>pre post. xs = pre @ [x, y] @ post"
proof -
  let ?i = "nat (indexOf xs x)"
  from indexOf_nth [OF assms(1)] have i: "0 \<le> indexOf xs x" "?i < length xs" "xs ! ?i = x" by auto
  from assms(2) i(1) have j: "Suc ?i < length xs" "xs ! Suc ?i = y"
    by (auto simp: array_get_def nat_add_distrib split: if_splits)
  have "xs = take ?i xs @ xs ! ?i # drop (Suc ?i) xs" using i(2) by (rule id_take_nth_drop)
  also have "drop (Suc ?i) xs = xs ! Suc ?i # drop (Suc (Suc ?i)) xs"
    using j(1) by (simp add: Cons_nth_drop_Suc)
  finally have "xs = take ?i xs @ [x, y] @ drop (Suc (Suc ?i)) xs" using i(3) j(2) by simp
  then show ?thesis by blast
qed

subsection \<open>\<^verbatim>\<open>baseColor\<close>\<close>

text \<open>
  C1. For a base color that is a key of the palette and not its last key,
  \<^verbatim>\<open>baseColor(base)\<close> returns the record whose \<^verbatim>\<open>default\<close> is \<open>base\<close> and whose
  \<^verbatim>\<open>isHovered\<close>, \<^verbatim>\<open>isFocusVisible\<close> and \<^verbatim>\<open>isPressed\<close> are the key that follows
  \<open>base\<close> in the order of the palette's keys. The result depends on that order: every
  reordering of the same entries in which that key no longer follows \<open>base\<close>
  changes the result, and such a reordering always exists.
\<close>

theorem baseColor_next_key:
  assumes keys: "object_keys palette = pre @ [base, nxt] @ post"
    and dist: "distinct (object_keys palette)"
  shows "baseColor palette base =
           Inr [(''default'', Some base), (''isHovered'', Some nxt),
                (''isFocusVisible'', Some nxt), (''isPressed'', Some nxt)]
       \<and> (\<forall>palette'. mset palette' = mset palette
             \<and> (\<forall>pre' post'. object_keys palette' \<noteq> pre' @ [base, nxt] @ post')
             \<longrightarrow> baseColor palette' base \<noteq> baseColor palette base)
       \<and> (\<exists>palette'. mset palette' = mset palette
             \<and> baseColor palette' base \<noteq> baseColor palette base)"
proof (intro conjI allI impI)
  from keys dist have notin: "base \<notin> set pre" "nxt \<notin> set post" "nxt \<noteq> base" "nxt \<notin> set pre" by auto
  show res: "baseColor palette base =
           Inr [(''default'', Some base), (''isHovered'', Some nxt),
                (''isFocusVisible'', Some nxt), (''isPressed'', Some nxt)]"
    using keys notin(1) by (rule baseColor_next)
  {
    fix palette'
    assume a: "mset palette' = mset palette
             \<and> (\<forall>pre' post'. object_keys palette' \<noteq> pre' @ [base, nxt] @ post')"
    then have "set palette' = set palette" by (metis set_mset_mset)
    then have "set (object_keys palette') = set (object_keys palette)"
      by (simp add: object_keys_def)
    with keys have mem: "base \<in> set (object_keys palette')" by simp
    show "baseColor palette' base \<noteq> baseColor palette base"
    proof
      assume "baseColor palette' base = baseColor palette base"
      with res baseColor_hover [OF mem]
      have "array_get (object_keys palette') (indexOf (object_keys palette') base + 1) = Some nxt"
        by simp
      from next_key_split [OF mem this] a show False by blast
    qed
  }
  from keys obtain P e1 e2 Q where pal: "palette = P @ [e1, e2] @ Q"
      and P: "map fst P = pre" and e: "fst e1 = base" "fst e2 = nxt" and Q: "map fst Q = post"
    unfolding object_keys_def by (auto simp: map_eq_append_conv map_eq_Cons_conv)
  let ?p = "P @ [e2, e1] @ Q"
  have m: "mset ?p = mset palette" unfolding pal by simp
  have k: "object_keys ?p = (pre @ [nxt]) @ base # post"
    using P e Q by (simp add: object_keys_def)
  have idx: "indexOf (object_keys ?p) base = int (length (pre @ [nxt]))"
    unfolding k using notin by (intro indexOf_append) simp
  have "array_get (object_keys ?p) (indexOf (object_keys ?p) base + 1) \<noteq> Some nxt"
  proof (cases post)
    case Nil
    then show ?thesis unfolding idx unfolding k by (simp add: array_get_def)
  next
    case (Cons z zs)
    with notin have "z \<noteq> nxt" by auto
    then show ?thesis unfolding idx unfolding k Cons
      by (simp add: array_get_def nth_append nat_add_distrib)
  qed
  moreover have "base \<in> set (object_keys ?p)" unfolding k by simp
  ultimately have "baseColor ?p base \<noteq> baseColor palette base"
    using baseColor_hover [of base ?p] res by simp
  with m show "\<exists>palette'. mset palette' = mset palette
             \<and> baseColor palette' base \<noteq> baseColor palette base" by blast
qed


theorem baseColor_next_key_witness:
  "(let palette = color (\<lambda>s. [(s @ ''-400'', ''a''), (s @ ''-500'', ''b'')]) (\<lambda>s. [])
    in object_keys palette =
         take 5 (object_keys palette) @ [''blue-400'', ''blue-500''] @ drop 7 (object_keys palette)
       \<and> distinct (object_keys palette)
       \<and> baseColor palette ''blue-400'' =
           Inr [(''default'', Some ''blue-400''), (''isHovered'', Some ''blue-500''),
                (''isFocusVisible'', Some ''blue-500''), (''isPressed'', Some ''blue-500'')])"
proof -
  let ?palette = "color (\<lambda>s. [(s @ ''-400'', ''a''), (s @ ''-500'', ''b'')]) (\<lambda>s. [])"
  have k: "object_keys ?palette =
         take 5 (object_keys ?palette) @ [''blue-400'', ''blue-500''] @ drop 7 (object_keys ?palette)"
    by code_simp
  have d: "distinct (object_keys ?palette)" by (rule color_keys_distinct)
  from baseColor_next_key [OF k d] k d show ?thesis unfolding Let_def by blast
qed

text \<open>
  C9. \<^verbatim>\<open>baseColor(base)\<close> throws \<^verbatim>\<open>Error('Invalid base color ' + base)\<close> exactly when
  \<open>base\<close> is not a key of the palette. For the last key it does not throw: the read at
  \<open>index + 1\<close> is out of range and the three state fields are \<^verbatim>\<open>undefined\<close>.
\<close>

theorem baseColor_throws_iff_not_key:
  "(baseColor palette base = Inl (Error (''Invalid base color '' @ base))
      \<longleftrightarrow> base \<notin> set (object_keys palette))
   \<and> (isl (baseColor palette base) \<longleftrightarrow> base \<notin> set (object_keys palette))
   \<and> (object_keys palette \<noteq> [] \<and> distinct (object_keys palette)
        \<and> base = last (object_keys palette)
      \<longrightarrow> baseColor palette base =
            Inr [(''default'', Some base), (''isHovered'', None),
                 (''isFocusVisible'', None), (''isPressed'', None)])"
proof (intro conjI impI)
  show "baseColor palette base = Inl (Error (''Invalid base color '' @ base))
      \<longleftrightarrow> base \<notin> set (object_keys palette)"
    using indexOf_absent [of "object_keys palette" base] by (simp add: baseColor_def Let_def)
  show "isl (baseColor palette base) \<longleftrightarrow> base \<notin> set (object_keys palette)"
    using indexOf_absent [of "object_keys palette" base] by (simp add: baseColor_def Let_def)
next
  assume a: "object_keys palette \<noteq> [] \<and> distinct (object_keys palette)
        \<and> base = last (object_keys palette)"
  then have k: "object_keys palette = butlast (object_keys palette) @ [base]" by simp
  with a have "base \<notin> set (butlast (object_keys palette))"
    by (metis distinct_append distinct.simps(2) disjoint_iff list.set_intros(1) distinct_butlast not_distinct_conv_prefix append_butlast_last_id)
  with k show "baseColor palette base =
            Inr [(''default'', Some base), (''isHovered'', None),
                 (''isFocusVisible'', None), (''isPressed'', None)]"
    by (rule baseColor_last)
qed

theorem baseColor_throws_iff_not_key_witness:
  "(let palette = color (\<lambda>s. [(s @ ''-400'', ''a''), (s @ ''-500'', ''b'')]) (\<lambda>s. [])
    in object_keys palette \<noteq> [] \<and> distinct (object_keys palette)
       \<and> ''LinkText'' = last (object_keys palette)
       \<and> baseColor palette ''LinkText'' =
            Inr [(''default'', Some ''LinkText''), (''isHovered'', None),
                 (''isFocusVisible'', None), (''isPressed'', None)]
       \<and> ''blue-450'' \<notin> set (object_keys palette)
       \<and> baseColor palette ''blue-450'' = Inl (Error ''Invalid base color blue-450''))"
proof -
  let ?palette = "color (\<lambda>s. [(s @ ''-400'', ''a''), (s @ ''-500'', ''b'')]) (\<lambda>s. [])"
  have n: "object_keys ?palette \<noteq> []" by code_simp
  have d: "distinct (object_keys ?palette)" by (rule color_keys_distinct)
  have l: "''LinkText'' = last (object_keys ?palette)" by code_simp
  have a: "''blue-450'' \<notin> set (object_keys ?palette)" by code_simp
  from baseColor_throws_iff_not_key [of ?palette "''LinkText''"]
       baseColor_throws_iff_not_key [of ?palette "''blue-450''"] n d l a
  show ?thesis unfolding Let_def by simp
qed

subsection \<open>\<^verbatim>\<open>lightDark\<close>\<close>

text \<open>
  C2, as amended. \<^verbatim>\<open>lightDark(light, dark)\<close> takes no receiver and does not go through
  \<^verbatim>\<open>arbitrary\<close>: whether or not it is invoked from a compiling context, it returns the
  bracketed marker \<^verbatim>\<open>[light-dark(v_light, v_dark)]\<close>, where \<open>v_light\<close> and \<open>v_dark\<close>
  are the palette values stored for the two keys.
\<close>

theorem lightDark_always_marker:
  "bracketed (lightDark palette light dark)
   \<and> (obj_get palette light = Some v_light \<and> obj_get palette dark = Some v_dark
        \<longrightarrow> lightDark palette light dark = ''[light-dark('' @ v_light @ '', '' @ v_dark @ '')]'')"
  by (simp add: lightDark_def bracketed_def template_string_def)

theorem lightDark_always_marker_witness:
  "(let palette = color (\<lambda>s. [(s @ ''-400'', ''rgb(1, 2, 3)'')]) (\<lambda>s. [])
    in obj_get palette ''white'' = Some ''white''
       \<and> obj_get palette ''gray-400'' = Some ''rgb(1, 2, 3)''
       \<and> lightDark palette ''white'' ''gray-400'' = ''[light-dark(white, rgb(1, 2, 3))]'')"
proof -
  let ?palette = "color (\<lambda>s. [(s @ ''-400'', ''rgb(1, 2, 3)'')]) (\<lambda>s. [])"
  have a: "obj_get ?palette ''white'' = Some ''white''" by code_simp
  have b: "obj_get ?palette ''gray-400'' = Some ''rgb(1, 2, 3)''" by code_simp
  from lightDark_always_marker [of ?palette "''white''" "''gray-400''" "''white''" "''rgb(1, 2, 3)''"] a b
  show ?thesis unfolding Let_def by simp
qed

text \<open>
  C2 as stated says that outside a compiling context the result is a plain, unbracketed
  string. The call \<^verbatim>\<open>lightDark('white', 'black')\<close>, made with no receiver, returns a
  bracketed string.
\<close>

theorem lightDark_plain_call_counterexample:
  "lightDark (color (\<lambda>s. []) (\<lambda>s. [])) ''white'' ''black'' = ''[light-dark(white, black)]''
   \<and> bracketed (lightDark (color (\<lambda>s. []) (\<lambda>s. [])) ''white'' ''black'')"
  by code_simp

subsection \<open>Shorthands\<close>

lemma shorthand_padding:
  "obj_get shorthands ''padding'' =
     Some (Properties [''paddingTop'', ''paddingBottom'', ''paddingStart'', ''paddingEnd''])"
  by (simp add: obj_get_def shorthands_def)

lemma shorthand_paddingTop: "obj_get shorthands ''paddingTop'' = None"
  by (simp add: obj_get_def shorthands_def)

lemma shorthand_transition:
  "obj_get shorthands ''transition'' = Some (Expansion transition_shorthand)"
  by (simp add: obj_get_def shorthands_def)

lemma expand_style_append:
  "expand_style shs (style @ rest) =
     foldl (\<lambda>decls (k, v).
              case obj_get shs k of
                Some sh \<Rightarrow> write_declarations decls (expand sh v)
              | None \<Rightarrow> decls(k \<mapsto> v))
       (expand_style shs style) rest"
  by (simp add: expand_style_def)

text \<open>
  C3. When a style call uses the \<^verbatim>\<open>padding\<close> shorthand with a value \<open>a\<close> (8) and then
  sets \<^verbatim>\<open>paddingTop\<close> to \<open>b\<close> (16), the resolved declarations have \<^verbatim>\<open>paddingTop\<close>
  at \<open>b\<close> and \<^verbatim>\<open>paddingBottom\<close>, \<^verbatim>\<open>paddingStart\<close>, \<^verbatim>\<open>paddingEnd\<close> at \<open>a\<close>: the
  shorthand is expanded first and the later explicit value overrides it, whatever the
  style object held before.
\<close>

theorem padding_then_paddingTop:
  "expand_style shorthands (style @ [(''padding'', a), (''paddingTop'', b)]) =
     (expand_style shorthands style)
       (''paddingBottom'' \<mapsto> a, ''paddingStart'' \<mapsto> a, ''paddingEnd'' \<mapsto> a, ''paddingTop'' \<mapsto> b)
   \<and> expand_style shorthands (style @ [(''padding'', a), (''paddingTop'', b)]) ''paddingTop'' = Some b
   \<and> expand_style shorthands (style @ [(''padding'', a), (''paddingTop'', b)]) ''paddingBottom'' = Some a
   \<and> expand_style shorthands (style @ [(''padding'', a), (''paddingTop'', b)]) ''paddingStart'' = Some a
   \<and> expand_style shorthands (style @ [(''padding'', a), (''paddingTop'', b)]) ''paddingEnd'' = Some a"
proof -
  have e: "expand_style shorthands (style @ [(''padding'', a), (''paddingTop'', b)]) =
     (expand_style shorthands style)
       (''paddingBottom'' \<mapsto> a, ''paddingStart'' \<mapsto> a, ''paddingEnd'' \<mapsto> a, ''paddingTop'' \<mapsto> b)"
    unfolding expand_style_append
    by (simp add: shorthand_padding shorthand_paddingTop write_declarations_def)
  show ?thesis unfolding e by simp
qed

theorem padding_then_paddingTop_witness:
  "(let d = expand_style shorthands
              [(''padding'', Literal (LNum (Fin 8))), (''paddingTop'', Literal (LNum (Fin 16)))]
    in d ''paddingTop'' = Some (Literal (LNum (Fin 16)))
       \<and> d ''paddingBottom'' = Some (Literal (LNum (Fin 8)))
       \<and> d ''paddingStart'' = Some (Literal (LNum (Fin 8)))
       \<and> d ''paddingEnd'' = Some (Literal (LNum (Fin 8))))"
  using padding_then_paddingTop [of "[]" "Literal (LNum (Fin 8))" "Literal (LNum (Fin 16))"]
  by (simp add: Let_def)

text \<open>
  C4. The function-form \<^verbatim>\<open>transition\<close> shorthand maps any value \<open>v\<close> to the mapping
  \<^verbatim>\<open>{transition: v, transitionDuration: 150, transitionTimingFunction: 'default'}\<close>, and
  a use of the shorthand writes exactly these three declarations: a style call that uses
  only this shorthand resolves to them and nothing else.
\<close>

theorem transition_shorthand_mapping:
  "transition_shorthand v =
     [(''transition'', v),
      (''transitionDuration'', Literal (LNum (Fin 150))),
      (''transitionTimingFunction'', Literal (LStr ''default''))]
   \<and> obj_get shorthands ''transition'' = Some (Expansion transition_shorthand)
   \<and> expand (Expansion transition_shorthand) v = transition_shorthand v
   \<and> expand_style shorthands [(''transition'', v)] =
       [''transition'' \<mapsto> v,
        ''transitionDuration'' \<mapsto> Literal (LNum (Fin 150)),
        ''transitionTimingFunction'' \<mapsto> Literal (LStr ''default'')]
   \<and> expand_style shorthands (style @ [(''transition'', v)]) =
       (expand_style shorthands style)
         (''transition'' \<mapsto> v,
          ''transitionDuration'' \<mapsto> Literal (LNum (Fin 150)),
          ''transitionTimingFunction'' \<mapsto> Literal (LStr ''default''))"
proof -
  have one: "expand_style shorthands (st @ [(''transition'', v)]) =
       (expand_style shorthands st)
         (''transition'' \<mapsto> v,
          ''transitionDuration'' \<mapsto> Literal (LNum (Fin 150)),
          ''transitionTimingFunction'' \<mapsto> Literal (LStr ''default''))" for st
    unfolding expand_style_append
    by (simp add: shorthand_transition transition_shorthand_def write_declarations_def)
  have empty: "expand_style shorthands [] = Map.empty" by (simp add: expand_style_def)
  from one [of "[]"] one [of style] empty show ?thesis
    by (simp add: shorthand_transition transition_shorthand_def)
qed

subsection \<open>Conditions\<close>

lemma sorted_key_order:
  assumes "sorted (map f xs)" and "i < length xs" and "j < length xs"
    and "f (xs ! i) < f (xs ! j)"
  shows "i < j"
proof (rule ccontr)
  assume "\<not> i < j"
  then have "j \<le> i" by simp
  with assms(1,2) have "map f xs ! j \<le> map f xs ! i"
    by (simp add: sorted_iff_nth_mono del: nth_map)
  with assms show False by simp
qed

lemma precedence_sm_lg:
  "precedence conditions (Some ''sm'') < precedence conditions (Some ''lg'')"
  by (simp add: precedence_def conditions_def object_keys_def)

lemma breakpoints_conditions:
  "breakpoints conditions =
     [(''sm'', 640), (''md'', 768), (''lg'', 1024), (''xl'', 1280), (''2xl'', 1536)]"
  by code_simp

text \<open>
  C5. The breakpoints are \<^verbatim>\<open>sm\<close> 640px, \<^verbatim>\<open>md\<close> 768px, \<^verbatim>\<open>lg\<close> 1024px, \<^verbatim>\<open>xl\<close> 1280px
  and \<^verbatim>\<open>2xl\<close> 1536px; their thresholds strictly ascend in declaration order; and for
  rules of the same property gated by \<^verbatim>\<open>sm\<close> and by \<^verbatim>\<open>lg\<close>, whatever the order of
  insertion into the cache, the flushed stylesheet has the \<^verbatim>\<open>lg\<close> rule after the
  \<^verbatim>\<open>sm\<close> rule.
\<close>

theorem breakpoints_ascend_and_lg_after_sm:
  "obj_get conditions ''sm'' = Some ''@media (min-width: 640px)''
   \<and> obj_get conditions ''md'' = Some ''@media (min-width: 768px)''
   \<and> obj_get conditions ''lg'' = Some ''@media (min-width: 1024px)''
   \<and> obj_get conditions ''xl'' = Some ''@media (min-width: 1280px)''
   \<and> obj_get conditions ''2xl'' = Some ''@media (min-width: 1536px)''
   \<and> breakpoints conditions =
        [(''sm'', 640), (''md'', 768), (''lg'', 1024), (''xl'', 1280), (''2xl'', 1536)]
   \<and> sorted_wrt (<) (map snd (breakpoints conditions))
   \<and> (r_sm \<in> set cache \<and> r_lg \<in> set cache
        \<and> rule_condition r_sm = Some ''sm'' \<and> rule_condition r_lg = Some ''lg''
        \<and> rule_property r_sm = rule_property r_lg
      \<longrightarrow> r_sm \<in> set (flush conditions cache) \<and> r_lg \<in> set (flush conditions cache)
          \<and> (\<forall>i j. i < length (flush conditions cache) \<and> j < length (flush conditions cache)
                 \<and> flush conditions cache ! i = r_sm \<and> flush conditions cache ! j = r_lg
               \<longrightarrow> i < j))"
proof (intro conjI impI allI)
  show "breakpoints conditions =
        [(''sm'', 640), (''md'', 768), (''lg'', 1024), (''xl'', 1280), (''2xl'', 1536)]"
    by (rule breakpoints_conditions)
  show "sorted_wrt (<) (map snd (breakpoints conditions))"
    unfolding breakpoints_conditions by simp
next
  assume a: "r_sm \<in> set cache \<and> r_lg \<in> set cache
        \<and> rule_condition r_sm = Some ''sm'' \<and> rule_condition r_lg = Some ''lg''
        \<and> rule_property r_sm = rule_property r_lg"
  then show "r_sm \<in> set (flush conditions cache)" "r_lg \<in> set (flush conditions cache)"
    by (simp_all add: flush_def)
  fix i j
  let ?out = "flush conditions cache"
  let ?key = "\<lambda>r. precedence conditions (rule_condition r)"
  assume b: "i < length ?out \<and> j < length ?out \<and> ?out ! i = r_sm \<and> ?out ! j = r_lg"
  have s: "sorted (map ?key ?out)" unfolding flush_def by (rule sorted_sort_key)
  from a b precedence_sm_lg have "?key (?out ! i) < ?key (?out ! j)" by simp
  with s b show "i < j" by (intro sorted_key_order [of ?key ?out i j]) simp_all
qed (simp_all add: obj_get_def conditions_def)

theorem breakpoints_ascend_and_lg_after_sm_witness:
  "(let r_lg = \<lparr>rule_property = ''width'', rule_value = ''2rem'', rule_condition = Some ''lg''\<rparr>;
        r_sm = \<lparr>rule_property = ''width'', rule_value = ''1rem'', rule_condition = Some ''sm''\<rparr>;
        r = \<lparr>rule_property = ''width'', rule_value = ''0rem'', rule_condition = None\<rparr>;
        cache = [r_lg, r_sm, r]
    in r_sm \<in> set cache \<and> r_lg \<in> set cache
       \<and> rule_condition r_sm = Some ''sm'' \<and> rule_condition r_lg = Some ''lg''
       \<and> rule_property r_sm = rule_property r_lg
       \<and> flush conditions cache = [r, r_sm, r_lg]
       \<and> (1::nat) < length (flush conditions cache) \<and> (2::nat) < length (flush conditions cache)
       \<and> flush conditions cache ! 1 = r_sm \<and> flush conditions cache ! 2 = r_lg \<and> (1::nat) < 2)"
proof -
  let ?r_lg = "\<lparr>rule_property = ''width'', rule_value = ''2rem'', rule_condition = Some ''lg''\<rparr>"
  let ?r_sm = "\<lparr>rule_property = ''width'', rule_value = ''1rem'', rule_condition = Some ''sm''\<rparr>"
  let ?r = "\<lparr>rule_property = ''width'', rule_value = ''0rem'', rule_condition = None\<rparr>"
  have f: "flush conditions [?r_lg, ?r_sm, ?r] = [?r, ?r_sm, ?r_lg]"
    by (simp add: flush_def precedence_def conditions_def object_keys_def)
  from breakpoints_ascend_and_lg_after_sm [of ?r_sm "[?r_lg, ?r_sm, ?r]" ?r_lg] f
  show ?thesis unfolding Let_def by simp
qed

subsection \<open>\<^verbatim>\<open>outlineOffset\<close>\<close>

text \<open>
  C7. The transform of the arbitrary property \<^verbatim>\<open>outlineOffset\<close> turns a number \<open>v\<close> into
  exactly one declaration, for the property it is applied to, whose value is the number
  followed by \<^verbatim>\<open>px\<close>: the mapping \<^verbatim>\<open>{outlineOffset: `${v}px`}\<close>.
\<close>

theorem outlineOffset_one_declaration:
  "outlineOffset_transform v ''outlineOffset'' = [(''outlineOffset'', number_to_string v @ ''px'')]
   \<and> outlineOffset_transform v property = [(property, number_to_string v @ ''px'')]
   \<and> length (outlineOffset_transform v property) = 1"
  by (simp add: outlineOffset_transform_def)

subsection \<open>Touch scaling\<close>

lemma obj_set_new: "k \<notin> set (object_keys obj) \<Longrightarrow> obj_set obj k v = obj @ [(k, v)]"
  by (induction obj) (auto simp: object_keys_def)

lemma foldl_obj_set_new:
  assumes "distinct (map key xs)" and "set (map key xs) \<inter> set (object_keys acc) = {}"
  shows "foldl (\<lambda>res x. obj_set res (key x) (val x)) acc xs = acc @ map (\<lambda>x. (key x, val x)) xs"
  using assms
proof (induction xs arbitrary: acc)
  case Nil
  show ?case by simp
next
  case (Cons x xs)
  from Cons.prems have new: "key x \<notin> set (object_keys acc)" by auto
  have "set (map key xs) \<inter> set (object_keys (acc @ [(key x, val x)])) = {}"
    using Cons.prems by (auto simp: object_keys_def)
  with Cons.IH [of "acc @ [(key x, val x)]"] Cons.prems new show ?case
    by (simp add: obj_set_new)
qed

lemma obj_spread_empty: "distinct (object_keys src) \<Longrightarrow> obj_spread [] src = src"
proof -
  assume d: "distinct (object_keys src)"
  have "(\<lambda>acc (k, v). obj_set acc k v) = (\<lambda>acc x :: string \<times> 'a. obj_set acc (fst x) (snd x))"
    by (simp add: fun_eq_iff split_beta)
  then have "obj_spread [] src = foldl (\<lambda>acc x. obj_set acc (fst x) (snd x)) [] src"
    unfolding obj_spread_def by simp
  also have "\<dots> = [] @ map (\<lambda>x. (fst x, snd x)) src"
    using d by (intro foldl_obj_set_new) (simp_all add: object_keys_def)
  finally show ?thesis by simp
qed

lemma map_entries_all:
  "(\<And>x. x \<in> set xs \<Longrightarrow> f x = Inr (g x)) \<Longrightarrow> map_entries f xs = Inr (map g xs)"
  by (induction xs) simp_all

lemma map_entries_map: "map_entries f (map h xs) = map_entries (\<lambda>x. f (h x)) xs"
  by (induction xs) (simp_all split: sum.splits)

lemma spacing_keys_distinct: "distinct (map rat_to_string spacing_px)"
  by code_simp

lemma parse_default_spacing:
  "list_all (\<lambda>px. parseFloat (rat_to_string (px / 16) @ ''rem'') = Fin (px / 16)) spacing_px"
  by code_simp

lemma spacing_div_exact:
  "list_all (\<lambda>px. round_double (px / 16) = Fin (px / 16)) spacing_px"
  by code_simp

lemma spacing_mul_exact:
  "list_all (\<lambda>px. round_double (px / 16 * (5 / 4)) = Fin (px / 16 * (5 / 4))) spacing_px"
  by code_simp

lemma spacing_unit:
  "list_all (\<lambda>px. match_unit (rat_to_string (px / 16) @ ''rem'') = Some ''rem'') spacing_px"
  by code_simp

lemma baseSpacing_entries:
  "baseSpacing = map (\<lambda>px. (rat_to_string px, rat_to_string (px / 16) @ ''rem'')) spacing_px"
proof -
  have "baseSpacing =
      foldl (\<lambda>res px. obj_set res (rat_to_string px)
                        (number_to_string (round_double (px / 16)) @ ''rem'')) [] spacing_px"
    unfolding baseSpacing_def generateSpacing_def
    by (simp add: foldl_map pxToRem_def)
  also have "\<dots> = [] @ map (\<lambda>px. (rat_to_string px,
      number_to_string (round_double (px / 16)) @ ''rem'')) spacing_px"
    using spacing_keys_distinct by (intro foldl_obj_set_new) (simp_all add: object_keys_def)
  also have "\<dots> = map (\<lambda>px. (rat_to_string px, rat_to_string (px / 16) @ ''rem'')) spacing_px"
    using spacing_div_exact by (simp add: list_all_iff)
  finally show ?thesis .
qed

lemma scaledSpacing_entries:
  "scaledSpacing = Inr (map (\<lambda>px. (rat_to_string px,
       [(''default'', rat_to_string (px / 16) @ ''rem''),
        (''touch'', rat_to_string (px / 16 * (5 / 4)) @ ''rem'')])) spacing_px)"
proof -
  let ?g = "\<lambda>px. (rat_to_string px,
       [(''default'', rat_to_string (px / 16) @ ''rem''),
        (''touch'', rat_to_string (px / 16 * (5 / 4)) @ ''rem'')])"
  have entry: "scaled_entry (rat_to_string px, rat_to_string (px / 16) @ ''rem'') = Inr (?g px)"
    if "px \<in> set spacing_px" for px
  proof -
    from that spacing_unit
    have u: "match_unit (rat_to_string (px / 16) @ ''rem'') = Some ''rem''"
      by (simp add: list_all_iff)
    from that parse_default_spacing
    have p: "parseFloat (rat_to_string (px / 16) @ ''rem'') = Fin (px / 16)"
      by (simp add: list_all_iff)
    from that spacing_mul_exact
    have m: "round_double (px / 16 * (5 / 4)) = Fin (px / 16 * (5 / 4))"
      by (simp add: list_all_iff)
    have "num_mul (Fin (px / 16)) (Fin (5 / 4)) = Fin (px / 16 * (5 / 4))"
      using m by simp
    then show ?thesis by (simp add: scaled_entry_def u p)
  qed
  have "map_entries (\<lambda>px. scaled_entry (rat_to_string px, rat_to_string (px / 16) @ ''rem''))
          spacing_px = Inr (map ?g spacing_px)"
    using entry by (rule map_entries_all)
  then have "map_entries scaled_entry baseSpacing = Inr (map ?g spacing_px)"
    unfolding baseSpacing_entries by (simp add: map_entries_map)
  moreover have "obj_spread [] (map ?g spacing_px) = map ?g spacing_px"
    using spacing_keys_distinct by (intro obj_spread_empty) (simp add: object_keys_def comp_def)
  ultimately show ?thesis by (simp add: scaledSpacing_def)
qed

lemma obj_get_map_entries:
  assumes "distinct (map key xs)" and "x \<in> set xs"
  shows "obj_get (map (\<lambda>x. (key x, val x)) xs) (key x) = Some (val x)"
proof -
  have "distinct (map fst (map (\<lambda>x. (key x, val x)) xs))" using assms(1) by (simp add: comp_def)
  moreover have "(key x, val x) \<in> set (map (\<lambda>x. (key x, val x)) xs)" using assms(2) by auto
  ultimately show ?thesis unfolding obj_get_def by (rule map_of_is_SomeI)
qed

text \<open>
  C10. Touch scaling is the fixed ratio 1.25. For every number \<open>px\<close>, \<^verbatim>\<open>size(px)\<close>
  returns the record whose \<^verbatim>\<open>default\<close> is \<^verbatim>\<open>pxToRem(px)\<close> and whose \<^verbatim>\<open>touch\<close> is
  \<^verbatim>\<open>pxToRem(px * 1.25)\<close> (both passed through \<^verbatim>\<open>arbitrary\<close>, which leaves them as they
  are when there is no receiver). For every key of \<^verbatim>\<open>baseSpacing\<close>, the entry of
  \<^verbatim>\<open>scaledSpacing\<close> has as \<^verbatim>\<open>default\<close> the value \<open>r\<close>\<^verbatim>\<open>rem\<close> of \<^verbatim>\<open>baseSpacing\<close> and as
  \<^verbatim>\<open>touch\<close> the value \<open>1.25 r\<close>\<^verbatim>\<open>rem\<close>.
\<close>

theorem touch_scaling_ratio:
  "size_helper this px =
     [(''default'', arbitrary this (pxToRem (N px))),
      (''touch'', arbitrary this (pxToRem (N (num_mul px (Fin (5 / 4))))))]
   \<and> size_helper None px =
     [(''default'', pxToRem (N px)), (''touch'', pxToRem (N (num_mul px (Fin (5 / 4)))))]
   \<and> (\<exists>tbl. scaledSpacing = Inr tbl
        \<and> object_keys tbl = object_keys baseSpacing
        \<and> (\<forall>k \<in> set (object_keys baseSpacing). \<exists>r.
              obj_get baseSpacing k = Some (rat_to_string r @ ''rem'')
            \<and> parseFloat (rat_to_string r @ ''rem'') = Fin r
            \<and> obj_get tbl k =
                Some [(''default'', rat_to_string r @ ''rem''),
                      (''touch'', rat_to_string (r * (5 / 4)) @ ''rem'')]))"
proof (intro conjI)
  let ?g = "\<lambda>px. (rat_to_string px,
       [(''default'', rat_to_string (px / 16) @ ''rem''),
        (''touch'', rat_to_string (px / 16 * (5 / 4)) @ ''rem'')])"
  let ?tbl = "map ?g spacing_px"
  have keys: "object_keys ?tbl = object_keys baseSpacing"
    unfolding baseSpacing_entries by (simp add: object_keys_def comp_def)
  have each: "\<exists>r. obj_get baseSpacing k = Some (rat_to_string r @ ''rem'')
            \<and> parseFloat (rat_to_string r @ ''rem'') = Fin r
            \<and> obj_get ?tbl k =
                Some [(''default'', rat_to_string r @ ''rem''),
                      (''touch'', rat_to_string (r * (5 / 4)) @ ''rem'')]"
    if "k \<in> set (object_keys baseSpacing)" for k
  proof -
    from that obtain px where px: "px \<in> set spacing_px" and k: "k = rat_to_string px"
      unfolding baseSpacing_entries by (auto simp: object_keys_def)
    have 1: "obj_get baseSpacing k = Some (rat_to_string (px / 16) @ ''rem'')"
      unfolding baseSpacing_entries k using spacing_keys_distinct px by (rule obj_get_map_entries)
    have 2: "parseFloat (rat_to_string (px / 16) @ ''rem'') = Fin (px / 16)"
      using parse_default_spacing px by (simp add: list_all_iff)
    have 3: "obj_get ?tbl k =
        Some [(''default'', rat_to_string (px / 16) @ ''rem''),
              (''touch'', rat_to_string (px / 16 * (5 / 4)) @ ''rem'')]"
      unfolding k using spacing_keys_distinct px by (rule obj_get_map_entries)
    from 1 2 3 show ?thesis by blast
  qed
  from scaledSpacing_entries keys each
  show "\<exists>tbl. scaledSpacing = Inr tbl
        \<and> object_keys tbl = object_keys baseSpacing
        \<and> (\<forall>k \<in> set (object_keys baseSpacing). \<exists>r.
              obj_get baseSpacing k = Some (rat_to_string r @ ''rem'')
            \<and> parseFloat (rat_to_string r @ ''rem'') = Fin r
            \<and> obj_get tbl k =
                Some [(''default'', rat_to_string r @ ''rem''),
                      (''touch'', rat_to_string (r * (5 / 4)) @ ''rem'')])"
    by blast
qed (simp_all add: size_helper_def arbitrary_def)

theorem touch_scaling_ratio_witness:
  "''20'' \<in> set (object_keys baseSpacing)
   \<and> obj_get baseSpacing ''20'' = Some ''1.25rem''
   \<and> (\<exists>tbl. scaledSpacing = Inr tbl
         \<and> obj_get tbl ''20'' = Some [(''default'', ''1.25rem''), (''touch'', ''1.5625rem'')])
   \<and> size_helper None (Fin 32) = [(''default'', ''2rem''), (''touch'', ''2.5rem'')]
   \<and> size_helper (Some \<lparr>assets = []\<rparr>) (Fin 20) =
        [(''default'', ''[1.25rem]''), (''touch'', ''[1.5625rem]'')]"
proof -
  have k20: "rat_to_string 20 = ''20''" by code_simp
  have v20: "rat_to_string (20 / 16) @ ''rem'' = ''1.25rem''" by code_simp
  have in20: "(20::rat) \<in> set spacing_px" by (simp add: spacing_px_def)
  have m: "''20'' \<in> set (object_keys baseSpacing)"
    unfolding baseSpacing_entries using in20 k20 by (force simp: object_keys_def)
  have g: "obj_get baseSpacing ''20'' = Some ''1.25rem''"
    using obj_get_map_entries [OF spacing_keys_distinct in20, of "\<lambda>px. rat_to_string (px / 16) @ ''rem''"]
    unfolding baseSpacing_entries k20 v20 .
  have p: "parseFloat ''1.25rem'' = Fin (5 / 4)" by code_simp
  have t: "rat_to_string (5 / 4 * (5 / 4)) @ ''rem'' = ''1.5625rem''" by code_simp
  have s1: "pxToRem (N (Fin 32)) = ''2rem''" "pxToRem (N (num_mul (Fin 32) (Fin (5 / 4)))) = ''2.5rem''"
    by code_simp+
  have s2: "pxToRem (N (Fin 20)) = ''1.25rem''" "pxToRem (N (num_mul (Fin 20) (Fin (5 / 4)))) = ''1.5625rem''"
    by code_simp+
  from touch_scaling_ratio [of None "Fin 32"] obtain tbl where
      tbl: "scaledSpacing = Inr tbl" and
      all: "\<forall>k \<in> set (object_keys baseSpacing). \<exists>r.
              obj_get baseSpacing k = Some (rat_to_string r @ ''rem'')
            \<and> parseFloat (rat_to_string r @ ''rem'') = Fin r
            \<and> obj_get tbl k =
                Some [(''default'', rat_to_string r @ ''rem''),
                      (''touch'', rat_to_string (r * (5 / 4)) @ ''rem'')]"
    by blast
  from all m obtain r where r: "obj_get baseSpacing ''20'' = Some (rat_to_string r @ ''rem'')"
      "parseFloat (rat_to_string r @ ''rem'') = Fin r"
      "obj_get tbl ''20'' = Some [(''default'', rat_to_string r @ ''rem''),
                      (''touch'', rat_to_string (r * (5 / 4)) @ ''rem'')]"
    by blast
  from r(1) g have d: "rat_to_string r @ ''rem'' = ''1.25rem''" by simp
  with r(2) p have "r = 5 / 4" by simp
  with r(3) d t have "obj_get tbl ''20'' = Some [(''default'', ''1.25rem''), (''touch'', ''1.5625rem'')]"
    by simp
  with tbl have e: "\<exists>tbl. scaledSpacing = Inr tbl
         \<and> obj_get tbl ''20'' = Some [(''default'', ''1.25rem''), (''touch'', ''1.5625rem'')]"
    by blast
  from touch_scaling_ratio [of None "Fin 32"] s1
  have z1: "size_helper None (Fin 32) = [(''default'', ''2rem''), (''touch'', ''2.5rem'')]"
    by (simp add: arbitrary_def)
  from touch_scaling_ratio [of "Some \<lparr>assets = []\<rparr>" "Fin 20"] s2
  have z2: "size_helper (Some \<lparr>assets = []\<rparr>) (Fin 20) =
        [(''default'', ''[1.25rem]''), (''touch'', ''[1.5625rem]'')]"
    by (simp add: arbitrary_def)
  from m g e z1 z2 show ?thesis by blast
qed

end
